theory Spec2Isabelle
  imports Main
begin

section \<open>JavaScript values decoded from JSON\<close>

text \<open>
  The value \<^verbatim>\<open>JSON.parse\<close> returns: null, a boolean, a number, a string, an array
  or an object. Numbers are the integer-valued ones (years, episode counts), in the
  range where JavaScript prints them in plain decimal. An object is the list of its own
  properties in source order; \<^verbatim>\<open>JSON.parse\<close> has already resolved repeated keys.
  JavaScript's \<^verbatim>\<open>undefined\<close> is \<open>None\<close> of \<open>json option\<close>.
\<close>

datatype json =
    JNull
  | JBool bool
  | JNum int
  | JStr string
  | JArr "json list"
  | JObj "(string \<times> json) list"

datatype error =
    TypeError
  | FetchError string
  | SqlError

datatype diag =
    ConsoleLog string
  | ConsoleWarn string
  | ConsoleError string

subsection \<open>Optional chaining, truthiness, defaults\<close>

text \<open>
  \<^verbatim>\<open>v?.k\<close>: \<^verbatim>\<open>undefined\<close> when \<^verbatim>\<open>v\<close> is \<^verbatim>\<open>undefined\<close> or \<^verbatim>\<open>null\<close>, the own property of
  an object, and \<^verbatim>\<open>undefined\<close> on a number, boolean, string or array: none of the keys
  the program reads (\<^verbatim>\<open>props\<close>, \<^verbatim>\<open>node\<close>, \<^verbatim>\<open>title\<close>, \<^verbatim>\<open>year\<close>, ...) is a built-in property
  of those.
\<close>

fun field :: "string \<Rightarrow> json option \<Rightarrow> json option" where
  "field k (Some (JObj kvs)) = map_of kvs k"
| "field k _ = None"

text \<open>
  \<^verbatim>\<open>v?.[0]\<close>: the first element of an array, the first character of a string, the
  property \<^verbatim>\<open>"0"\<close> of an object.
\<close>

fun index0 :: "json option \<Rightarrow> json option" where
  "index0 (Some (JArr xs)) = (case xs of [] \<Rightarrow> None | x # _ \<Rightarrow> Some x)"
| "index0 (Some (JStr s)) = (case s of [] \<Rightarrow> None | c # _ \<Rightarrow> Some (JStr [c]))"
| "index0 (Some (JObj kvs)) = map_of kvs ''0''"
| "index0 _ = None"

fun nullish :: "json option \<Rightarrow> bool" where
  "nullish None = True"
| "nullish (Some JNull) = True"
| "nullish _ = False"

fun truthy :: "json option \<Rightarrow> bool" where
  "truthy None = False"
| "truthy (Some JNull) = False"
| "truthy (Some (JBool b)) = b"
| "truthy (Some (JNum n)) = (n \<noteq> 0)"
| "truthy (Some (JStr s)) = (s \<noteq> [])"
| "truthy (Some (JArr xs)) = True"
| "truthy (Some (JObj kvs)) = True"

text \<open>\<^verbatim>\<open>a || b\<close> on two possibly undefined values, and \<^verbatim>\<open>a || d\<close> with a literal default.\<close>

definition or_else :: "json option \<Rightarrow> json option \<Rightarrow> json option" where
  "or_else a b = (if truthy a then a else b)"

definition or_default :: "json option \<Rightarrow> json \<Rightarrow> json" where
  "or_default a d = (case a of Some v \<Rightarrow> (if truthy a then v else d) | None \<Rightarrow> d)"

fun isArray :: "json \<Rightarrow> bool" where
  "isArray (JArr xs) = True"
| "isArray _ = False"

subsection \<open>Conversion to string\<close>

text \<open>Decimal digits of a natural number, most significant first.\<close>

fun digits :: "nat \<Rightarrow> string" where
  "digits n = (if n < 10 then [''0123456789'' ! n]
               else digits (n div 10) @ [''0123456789'' ! (n mod 10)])"

declare digits.simps [simp del]

definition showInt :: "int \<Rightarrow> string" where
  "showInt i = (if i < 0 then CHR ''-'' # digits (nat (- i)) else digits (nat i))"

text \<open>
  \<^verbatim>\<open>x.toString()\<close> and the conversion inside a template literal, for a value that is
  neither \<^verbatim>\<open>undefined\<close> nor \<^verbatim>\<open>null\<close>. An object that carries an own property
  \<^verbatim>\<open>toString\<close> has a JSON value there, which is not callable: the call is a TypeError.
  An array joins its elements with commas, \<^verbatim>\<open>null\<close> elements printing as nothing.
\<close>

fun toString :: "json \<Rightarrow> error + string"
  and join :: "json list \<Rightarrow> error + string" where
  "toString JNull = Inr ''null''"
| "toString (JBool b) = Inr (if b then ''true'' else ''false'')"
| "toString (JNum n) = Inr (showInt n)"
| "toString (JStr s) = Inr s"
| "toString (JArr xs) = join xs"
| "toString (JObj kvs) =
     (if map_of kvs ''toString'' \<noteq> None then Inl TypeError else Inr ''[object Object]'')"
| "join [] = Inr ''''"
| "join (x # xs) =
     (case (if x = JNull then Inr '''' else toString x) of
        Inl e \<Rightarrow> Inl e
      | Inr s \<Rightarrow>
          (if xs = [] then Inr s
           else (case join xs of Inl e \<Rightarrow> Inl e | Inr t \<Rightarrow> Inr (s @ '','' @ t))))"

text \<open>\<^verbatim>\<open>v.toString()\<close> on a value that may be \<^verbatim>\<open>undefined\<close> or \<^verbatim>\<open>null\<close>: then a TypeError.\<close>

fun callToString :: "json option \<Rightarrow> error + string" where
  "callToString None = Inl TypeError"
| "callToString (Some JNull) = Inl TypeError"
| "callToString (Some v) = toString v"

text \<open>\<^verbatim>\<open>v?.toString()\<close>: \<^verbatim>\<open>undefined\<close> for a nullish value, else the string.\<close>

fun optToString :: "json option \<Rightarrow> error + string option" where
  "optToString None = Inr None"
| "optToString (Some JNull) = Inr None"
| "optToString (Some v) = (case toString v of Inl e \<Rightarrow> Inl e | Inr s \<Rightarrow> Inr (Some s))"

section \<open>The payload normalizer\<close>

text \<open>
  One credit as \<^verbatim>\<open>extractFilmographyFromHtml\<close> of \<^verbatim>\<open>src/index.js\<close> pushes it. A field
  filled by \<^verbatim>\<open>x || ""\<close> holds whatever truthy value the payload had there, so it is a
  \<open>json\<close>; \<^verbatim>\<open>titleUrl\<close> and \<^verbatim>\<open>fromYear\<close> are always strings; \<^verbatim>\<open>toYear\<close> is a string or
  \<^verbatim>\<open>null\<close> (\<open>None\<close>).
\<close>

record credit =
  title :: json
  titleUrl :: string
  fromYear :: string
  toYear :: "string option"
  noOfEpisodes :: json
  type :: json
  role :: json
  currentProductionStage :: json

text \<open>
  Line 142, first operand: \<^verbatim>\<open>node?.episodeCredits?.yearRange?.year.toString()\<close>. The chain
  stops with \<^verbatim>\<open>undefined\<close> when \<^verbatim>\<open>yearRange\<close> is nullish; otherwise \<^verbatim>\<open>.year\<close> is read and
  \<^verbatim>\<open>.toString()\<close> is called on it with no further guard.
\<close>

definition episodeYear :: "json option \<Rightarrow> error + string option" where
  "episodeYear node =
     (let yearRange = field ''yearRange'' (field ''episodeCredits'' node)
      in if nullish yearRange then Inr None
         else (case callToString (field ''year'' yearRange) of
                 Inl e \<Rightarrow> Inl e | Inr s \<Rightarrow> Inr (Some s)))"

text \<open>Line 142, second operand: \<^verbatim>\<open>node?.title?.releaseYear?.year.toString()\<close>.\<close>

definition releaseYear :: "json option \<Rightarrow> error + string option" where
  "releaseYear node =
     (let ry = field ''releaseYear'' (field ''title'' node)
      in if nullish ry then Inr None
         else (case callToString (field ''year'' ry) of
                 Inl e \<Rightarrow> Inl e | Inr s \<Rightarrow> Inr (Some s)))"

text \<open>A string that may be \<^verbatim>\<open>undefined\<close> is truthy when it is a non-empty string.\<close>

fun truthyStr :: "string option \<Rightarrow> bool" where
  "truthyStr None = False"
| "truthyStr (Some s) = (s \<noteq> [])"

text \<open>Line 142 as a whole: \<^verbatim>\<open>A || B || ''\<close>; \<^verbatim>\<open>B\<close> is evaluated only when \<^verbatim>\<open>A\<close> is falsy.\<close>

definition fromYearOf :: "json option \<Rightarrow> error + string" where
  "fromYearOf node =
     (case episodeYear node of
        Inl e \<Rightarrow> Inl e
      | Inr a \<Rightarrow>
          (if truthyStr a then Inr (the a)
           else (case releaseYear node of
                   Inl e \<Rightarrow> Inl e
                 | Inr b \<Rightarrow> (if truthyStr b then Inr (the b) else Inr ''''))))"

text \<open>Line 143: \<^verbatim>\<open>node?.episodeCredits?.yearRange?.endYear?.toString() || null\<close>.\<close>

definition toYearOf :: "json option \<Rightarrow> error + string option" where
  "toYearOf node =
     (case optToString (field ''endYear'' (field ''yearRange'' (field ''episodeCredits'' node))) of
        Inl e \<Rightarrow> Inl e
      | Inr a \<Rightarrow> (if truthyStr a then Inr a else Inr None))"

text \<open>Lines 139 to 141: the URL is built when \<^verbatim>\<open>node?.title?.id\<close> is truthy.\<close>

definition titleUrlOf :: "json option \<Rightarrow> error + string" where
  "titleUrlOf node =
     (let i = field ''id'' (field ''title'' node)
      in if truthy i
         then (case toString (the i) of
                 Inl e \<Rightarrow> Inl e
               | Inr s \<Rightarrow> Inr (''https://www.imdb.com/title/'' @ s @ ''/''))
         else Inr '''')"

text \<open>The body of the loop of lines 136 to 150, for one edge.\<close>

definition normalizeEdge :: "json \<Rightarrow> error + credit" where
  "normalizeEdge edge =
     (let node = field ''node'' (Some edge)
      in case titleUrlOf node of
           Inl e \<Rightarrow> Inl e
         | Inr u \<Rightarrow>
        (case fromYearOf node of
           Inl e \<Rightarrow> Inl e
         | Inr fy \<Rightarrow>
        (case toYearOf node of
           Inl e \<Rightarrow> Inl e
         | Inr ty \<Rightarrow>
             Inr \<lparr> title = or_default (field ''text'' (field ''titleText'' (field ''title'' node))) (JStr ''''),
                   titleUrl = u,
                   fromYear = fy,
                   toYear = ty,
                   noOfEpisodes = or_default (field ''total'' (field ''episodeCredits'' node)) (JNum 0),
                   type = or_default (field ''text'' (field ''titleType'' (field ''title'' node))) (JStr ''''),
                   role = or_default
                            (or_else (field ''name'' (index0 (field ''characters'' node)))
                                     (field ''text'' (field ''category'' node)))
                            (JStr ''''),
                   currentProductionStage =
                     or_default
                       (field ''text'' (field ''currentProductionStage''
                          (field ''productionStatus'' (field ''title'' node))))
                       (JStr '''') \<rparr>)))"

text \<open>The loop itself: the first edge that throws ends the function, credits and all.\<close>

fun forEdges :: "json list \<Rightarrow> credit list \<Rightarrow> error + credit list" where
  "forEdges [] credits = Inr credits"
| "forEdges (edge # edges) credits =
     (case normalizeEdge edge of
        Inl e \<Rightarrow> Inl e
      | Inr c \<Rightarrow> forEdges edges (credits @ [c]))"

section \<open>The world outside the program\<close>

text \<open>
  What the libraries and the network answer, fixed for a run. \<^verbatim>\<open>cheerio\<close>, \<^verbatim>\<open>JSON.parse\<close>,
  \<^verbatim>\<open>node-fetch\<close> and \<^verbatim>\<open>mssql\<close> are not part of the repository; each is a field here.
  \<^item> \<open>next_data html\<close> is \<^verbatim>\<open>$("#__NEXT_DATA__").html()\<close> after \<^verbatim>\<open>cheerio.load(html)\<close>:
    \<open>None\<close> when no such element exists (\<^verbatim>\<open>null\<close>), else its text.
  \<^item> \<open>json_parse s\<close> is \<^verbatim>\<open>JSON.parse(s)\<close>, \<open>None\<close> when it throws.
  \<^item> \<open>fetch url\<close> is the response of the GET request, \<open>None\<close> when the request is
    rejected before any response.
  \<^item> \<open>connect_ok\<close>, \<open>query_ok\<close>, \<open>close_ok\<close>: whether \<^verbatim>\<open>sql.connect\<close>, the pending-set
    query and \<^verbatim>\<open>pool.close\<close> resolve; \<open>insert_ok r\<close>: whether the INSERT of row \<open>r\<close> does.
\<close>

record response =
  status :: nat
  statusText :: string
  body :: string

type_synonym meta_row = "int \<times> credit"

record env =
  next_data :: "string \<Rightarrow> string option"
  json_parse :: "string \<Rightarrow> json option"
  fetch :: "string \<Rightarrow> response option"
  connect_ok :: bool
  query_ok :: bool
  close_ok :: bool
  insert_ok :: "meta_row \<Rightarrow> bool"

section \<open>extractFilmographyFromHtml, src/index.js\<close>

text \<open>
  \<^verbatim>\<open>[...x]\<close>: the elements of an array, the characters of a string; any other value is
  not iterable, a TypeError.
\<close>

fun spread :: "json \<Rightarrow> error + json list" where
  "spread (JArr xs) = Inr xs"
| "spread (JStr s) = Inr (map (\<lambda>c. JStr [c]) s)"
| "spread _ = Inl TypeError"

text \<open>
  \<^verbatim>\<open>xs.flatMap(f)\<close>: an array returned by \<^verbatim>\<open>f\<close> is spliced in, any other value is one
  element.
\<close>

fun flatten1 :: "json \<Rightarrow> json list" where
  "flatten1 (JArr xs) = xs"
| "flatten1 v = [v]"

definition flatMap :: "(json \<Rightarrow> json) \<Rightarrow> json list \<Rightarrow> json list" where
  "flatMap f xs = concat (map (\<lambda>x. flatten1 (f x)) xs)"

text \<open>The callback of line 129: \<^verbatim>\<open>credit => credit?.credits?.edges || []\<close>.\<close>

definition edgesOf :: "json \<Rightarrow> json" where
  "edgesOf credit = or_default (field ''edges'' (field ''credits'' (Some credit))) (JArr [])"

definition mainColumnData :: "json \<Rightarrow> json option" where
  "mainColumnData imdbJson =
     field ''mainColumnData'' (field ''pageProps'' (field ''props'' (Some imdbJson)))"

text \<open>
  The result is what the function printed and either the error it threw or the credits
  it returned. The test of line 132 is kept as written; \<^verbatim>\<open>flatMap\<close> always returns an
  array, so it never fires.
\<close>

definition extractFilmographyFromHtml :: "env \<Rightarrow> string \<Rightarrow> diag list \<times> (error + credit list)" where
  "extractFilmographyFromHtml w html =
     (case next_data w html of
        None \<Rightarrow> ([ConsoleError ''__NEXT_DATA__ not found in HTML''], Inr [])
      | Some nextDataScript \<Rightarrow>
          if nextDataScript = [] then ([ConsoleError ''__NEXT_DATA__ not found in HTML''], Inr [])
          else (case json_parse w nextDataScript of
                  None \<Rightarrow> ([ConsoleError ''Failed to parse __NEXT_DATA__ JSON:''], Inr [])
                | Some imdbJson \<Rightarrow>
                    (let released = or_default (field ''releasedPrimaryCredits'' (mainColumnData imdbJson)) (JArr []);
                         unreleased = or_default (field ''unreleasedPrimaryCredits'' (mainColumnData imdbJson)) (JArr [])
                     in case spread released of
                          Inl e \<Rightarrow> ([], Inl e)
                        | Inr rs \<Rightarrow>
                       (case spread unreleased of
                          Inl e \<Rightarrow> ([], Inl e)
                        | Inr us \<Rightarrow>
                            (let edges = JArr (flatMap edgesOf (rs @ us))
                             in if \<not> truthy (Some edges) \<or> \<not> isArray edges
                                then ([ConsoleWarn ''No filmography data found in __NEXT_DATA__''], Inr [])
                                else ([], forEdges (flatten1 edges) []))))))"

section \<open>extractFilmographyFromHtml, src/unnamed/part\_000\<close>

record credit_part000 =
  title0 :: json
  titleUrl0 :: string
  year0 :: string
  type0 :: json
  role0 :: json

text \<open>Line 135: \<^verbatim>\<open>node?.title?.releaseYear?.year?.toString() || ""\<close>.\<close>

definition yearOf_part000 :: "json option \<Rightarrow> error + string" where
  "yearOf_part000 node =
     (case optToString (field ''year'' (field ''releaseYear'' (field ''title'' node))) of
        Inl e \<Rightarrow> Inl e
      | Inr a \<Rightarrow> (if truthyStr a then Inr (the a) else Inr ''''))"

definition normalizeEdge_part000 :: "json \<Rightarrow> error + credit_part000" where
  "normalizeEdge_part000 edge =
     (let node = field ''node'' (Some edge)
      in case titleUrlOf node of
           Inl e \<Rightarrow> Inl e
         | Inr u \<Rightarrow>
        (case yearOf_part000 node of
           Inl e \<Rightarrow> Inl e
         | Inr y \<Rightarrow>
             Inr \<lparr> title0 = or_default (field ''text'' (field ''titleText'' (field ''title'' node))) (JStr ''''),
                   titleUrl0 = u,
                   year0 = y,
                   type0 = or_default (field ''text'' (field ''titleType'' (field ''title'' node))) (JStr ''''),
                   role0 = or_default (field ''name'' (index0 (field ''characters'' node))) (JStr '''') \<rparr>))"

fun forEdges_part000 :: "json list \<Rightarrow> credit_part000 list \<Rightarrow> error + credit_part000 list" where
  "forEdges_part000 [] credits = Inr credits"
| "forEdges_part000 (edge # edges) credits =
     (case normalizeEdge_part000 edge of
        Inl e \<Rightarrow> Inl e
      | Inr c \<Rightarrow> forEdges_part000 edges (credits @ [c]))"

text \<open>
  Lines 122 to 124:
  \<^verbatim>\<open>imdbJson?.props?.pageProps?.mainColumnData?.releasedPrimaryCredits?.[0]?.credits?.edges\<close>.
\<close>

definition firstReleasedEdges :: "json \<Rightarrow> json option" where
  "firstReleasedEdges imdbJson =
     field ''edges'' (field ''credits''
       (index0 (field ''releasedPrimaryCredits'' (mainColumnData imdbJson))))"

definition extractFilmographyFromHtml_part000 ::
  "env \<Rightarrow> string \<Rightarrow> diag list \<times> (error + credit_part000 list)" where
  "extractFilmographyFromHtml_part000 w html =
     (case next_data w html of
        None \<Rightarrow> ([ConsoleError ''__NEXT_DATA__ not found in HTML''], Inr [])
      | Some nextDataScript \<Rightarrow>
          if nextDataScript = [] then ([ConsoleError ''__NEXT_DATA__ not found in HTML''], Inr [])
          else (case json_parse w nextDataScript of
                  None \<Rightarrow> ([ConsoleError ''Failed to parse __NEXT_DATA__ JSON:''], Inr [])
                | Some imdbJson \<Rightarrow>
                    (case firstReleasedEdges imdbJson of
                       Some (JArr edges) \<Rightarrow> ([], forEdges_part000 edges [])
                     | _ \<Rightarrow> ([ConsoleWarn ''No filmography data found in __NEXT_DATA__''], Inr []))))"

section \<open>extractImdbId\<close>

text \<open>
  The regular expression \<^verbatim>\<open>/\/name\/(nm\d+)\/?/\<close> (both files): the literal \<^verbatim>\<open>/name/nm\<close>,
  then one or more of the digits 0 to 9, taken greedily, then an optional slash. The
  optional slash always succeeds, so the digits never give any back. \<open>matchAt\<close> tries
  the expression at the start of the string and returns group 1.
\<close>

definition isDigit :: "char \<Rightarrow> bool" where
  "isDigit c = (c \<in> set ''0123456789'')"

definition matchAt :: "string \<Rightarrow> string option" where
  "matchAt s =
     (if take 8 s = ''/name/nm'' \<and> takeWhile isDigit (drop 8 s) \<noteq> []
      then Some (''nm'' @ takeWhile isDigit (drop 8 s))
      else None)"

text \<open>\<^verbatim>\<open>url.match(re)\<close> without the global flag: the leftmost position where it matches.\<close>

fun search :: "string \<Rightarrow> string option" where
  "search [] = None"
| "search (c # cs) = (case matchAt (c # cs) of Some t \<Rightarrow> Some t | None \<Rightarrow> search cs)"

text \<open>
  \<^verbatim>\<open>IMDBLink\<close> is a column of the source table: a string or NULL (\<open>None\<close>).
  \<^verbatim>\<open>!url\<close> holds for \<^verbatim>\<open>null\<close> and for the empty string.
\<close>

definition extractImdbId :: "string option \<Rightarrow> string option" where
  "extractImdbId url =
     (case url of
        None \<Rightarrow> None
      | Some s \<Rightarrow> (if s = [] then None else search s))"

section \<open>The sync driver\<close>

text \<open>
  The two tables and the console. \<^verbatim>\<open>TalentID\<close> is an integer key, never NULL. A row of
  \<^verbatim>\<open>tblImdbMetaData\<close> is the \<^verbatim>\<open>TalentId\<close> and the credit whose fields the INSERT binds.
\<close>

record row =
  TalentID :: int
  IMDBLink :: "string option"

record state =
  tblTalentIMDBResume :: "row list"
  tblImdbMetaData :: "meta_row list"
  console :: "diag list"

definition emit :: "diag \<Rightarrow> state \<Rightarrow> state" where
  "emit d st = st\<lparr>console := console st @ [d]\<rparr>"

fun message :: "error \<Rightarrow> string" where
  "message TypeError = ''TypeError''"
| "message (FetchError m) = m"
| "message SqlError = ''SqlError''"

text \<open>
  Lines 31 to 37: the rows of \<^verbatim>\<open>tblTalentIMDBResume\<close> whose \<^verbatim>\<open>TalentID\<close> is not among the
  \<^verbatim>\<open>TalentId\<close>s of \<^verbatim>\<open>tblImdbMetaData\<close>, in table order.
\<close>

definition pending :: "state \<Rightarrow> row list" where
  "pending st =
     filter (\<lambda>ab. TalentID ab \<notin> set (map fst (tblImdbMetaData st))) (tblTalentIMDBResume st)"

text \<open>\<^verbatim>\<open>fetchImdbPage\<close>: \<^verbatim>\<open>response.ok\<close> is a status from 200 to 299.\<close>

definition ok :: "response \<Rightarrow> bool" where
  "ok r = (200 \<le> status r \<and> status r \<le> 299)"

definition fetchImdbPage :: "env \<Rightarrow> string \<Rightarrow> error + string" where
  "fetchImdbPage w imdbId =
     (let url = ''https://www.imdb.com/name/'' @ imdbId @ ''/''
      in case fetch w url of
           None \<Rightarrow> Inl (FetchError ''request failed'')
         | Some r \<Rightarrow>
             (if \<not> ok r
              then Inl (FetchError (''Failed to fetch IMDb page: '' @ showInt (int (status r))
                                    @ '' '' @ statusText r))
              else Inr (body r)))"

text \<open>
  A statement leaves the state it reached and, when it threw, the error: rows inserted
  before an INSERT fails stay in the table. Lines 56 to 72, the loop over the credits:
\<close>

fun insertCredits :: "env \<Rightarrow> int \<Rightarrow> credit list \<Rightarrow> state \<Rightarrow> state \<times> error option" where
  "insertCredits w tid [] st = (st, None)"
| "insertCredits w tid (c # cs) st =
     (let st1 = emit (ConsoleLog ''Inserting credit'') st
      in if insert_ok w (tid, c)
         then insertCredits w tid cs (st1\<lparr>tblImdbMetaData := tblImdbMetaData st1 @ [(tid, c)]\<rparr>)
         else (st1, Some SqlError))"

text \<open>Lines 45 to 72, the body of the \<^verbatim>\<open>try\<close> for one row.\<close>

definition tryRow :: "env \<Rightarrow> row \<Rightarrow> state \<Rightarrow> state \<times> error option" where
  "tryRow w r st =
     (let imdbId = extractImdbId (IMDBLink r);
          st1 = emit (ConsoleLog (''Processing TalentID: '' @ showInt (TalentID r) @ '', imdbId: ''
                                  @ (case imdbId of None \<Rightarrow> ''null'' | Some i \<Rightarrow> i))) st
      in case imdbId of
           None \<Rightarrow>
             (emit (ConsoleWarn (''No valid IMDb ID found for TalentID '' @ showInt (TalentID r))) st1,
              None)
         | Some i \<Rightarrow>
             (case fetchImdbPage w i of
                Inl e \<Rightarrow> (st1, Some e)
              | Inr pageHtml \<Rightarrow>
                  (case extractFilmographyFromHtml w pageHtml of
                     (ds, Inl e) \<Rightarrow> (st1\<lparr>console := console st1 @ ds\<rparr>, Some e)
                   | (ds, Inr credits) \<Rightarrow>
                       insertCredits w (TalentID r) credits
                         (emit (ConsoleLog (''Found '' @ showInt (int (length credits))
                                            @ '' credits for TalentID '' @ showInt (TalentID r)))
                            (st1\<lparr>console := console st1 @ ds\<rparr>)))))"

text \<open>Lines 44 to 77: the \<^verbatim>\<open>try\<close> with its \<^verbatim>\<open>catch\<close>, which prints the error.\<close>

definition processRow :: "env \<Rightarrow> row \<Rightarrow> state \<Rightarrow> state \<times> error option" where
  "processRow w r st =
     (case tryRow w r st of
        (st', None) \<Rightarrow> (st', None)
      | (st', Some err) \<Rightarrow>
          (emit (ConsoleError (''Error processing IMDb for talent '' @ showInt (TalentID r)
                               @ '': '' @ message err)) st',
           None))"

text \<open>Lines 41 to 78: the loop over the rows; an error leaving a row would end it.\<close>

fun forRows :: "env \<Rightarrow> row list \<Rightarrow> state \<Rightarrow> state \<times> error option" where
  "forRows w [] st = (st, None)"
| "forRows w (r # rs) st =
     (case processRow w r st of
        (st', Some e) \<Rightarrow> (st', Some e)
      | (st', None) \<Rightarrow> forRows w rs st')"

text \<open>
  Lines 26 to 84. When \<^verbatim>\<open>sql.connect\<close> rejects, \<^verbatim>\<open>pool\<close> stays undefined and \<^verbatim>\<open>finally\<close>
  closes nothing. The \<^verbatim>\<open>catch\<close> prints and does not rethrow; an error of \<^verbatim>\<open>pool.close\<close>
  inside \<^verbatim>\<open>finally\<close> leaves the function.
\<close>

definition processAllExistingImdbLinks :: "env \<Rightarrow> state \<Rightarrow> state \<times> error option" where
  "processAllExistingImdbLinks w st =
     (if \<not> connect_ok w then (emit (ConsoleError ''Database error:'') st, None)
      else
        (let (st1, thrown) = (if \<not> query_ok w then (st, Some SqlError)
                              else forRows w (pending st) st);
             st2 = (case thrown of
                      None \<Rightarrow> st1
                    | Some err \<Rightarrow> emit (ConsoleError ''Database error:'') st1)
         in if close_ok w then (st2, None) else (st2, Some SqlError)))"

text \<open>Lines 154 to 163: the state at exit and the status given to \<^verbatim>\<open>process.exit\<close>.\<close>

definition main :: "env \<Rightarrow> state \<Rightarrow> state \<times> nat" where
  "main w st =
     (case processAllExistingImdbLinks w st of
        (st', None) \<Rightarrow> (emit (ConsoleLog ''Processing finished.'') st', 0)
      | (st', Some err) \<Rightarrow> (emit (ConsoleError ''Unexpected error:'') st', 1))"

section \<open>Notions used in the statements\<close>

text \<open>
  The rows one source row adds to \<^verbatim>\<open>tblImdbMetaData\<close> when it is processed on its own,
  from empty tables.
\<close>

definition inserted :: "env \<Rightarrow> row \<Rightarrow> meta_row list" where
  "inserted w r =
     tblImdbMetaData (fst (processRow w r
       \<lparr>tblTalentIMDBResume = [], tblImdbMetaData = [], console = []\<rparr>))"

text \<open>
  The same rows read off the phases: nothing without an identifier, nothing when the
  fetch or the normalizer throws, else the credits up to the first INSERT that fails.
\<close>

definition persisted :: "env \<Rightarrow> row \<Rightarrow> meta_row list" where
  "persisted w r =
     (case extractImdbId (IMDBLink r) of
        None \<Rightarrow> []
      | Some i \<Rightarrow>
          (case fetchImdbPage w i of
             Inl e \<Rightarrow> []
           | Inr pageHtml \<Rightarrow>
               (case snd (extractFilmographyFromHtml w pageHtml) of
                  Inl e \<Rightarrow> []
                | Inr credits \<Rightarrow>
                    map (Pair (TalentID r))
                      (takeWhile (\<lambda>c. insert_ok w (TalentID r, c)) credits))))"

text \<open>The rows a whole run adds.\<close>

definition added :: "env \<Rightarrow> state \<Rightarrow> meta_row list" where
  "added w st =
     (if connect_ok w \<and> query_ok w then concat (map (persisted w) (pending st)) else [])"

text \<open>
  The identifier pattern in the words of the specification: the string contains
  \<^verbatim>\<open>/name/<TOKEN>/\<close>, the token being a letter prefix followed by digits.
  \<open>spec_tokenAt\<close> looks for it at the start of the string.
\<close>

definition isLetter :: "char \<Rightarrow> bool" where
  "isLetter c = (c \<in> set ''abcdefghijklmnopqrstuvwxyzABCDEFGHIJKLMNOPQRSTUVWXYZ'')"

definition spec_tokenAt :: "string \<Rightarrow> bool" where
  "spec_tokenAt s =
     (take 6 s = ''/name/'' \<and>
      takeWhile isLetter (drop 6 s) \<noteq> [] \<and>
      takeWhile isDigit (dropWhile isLetter (drop 6 s)) \<noteq> [] \<and>
      take 1 (dropWhile isDigit (dropWhile isLetter (drop 6 s))) = ''/'')"

fun spec_containsToken :: "string \<Rightarrow> bool" where
  "spec_containsToken [] = False"
| "spec_containsToken (c # cs) = (spec_tokenAt (c # cs) \<or> spec_containsToken cs)"

text \<open>
  The raw year fields of an edge, read with the same optional chains as the code, and
  the string a field prints as: empty when the field is absent.
\<close>

definition episodeRangeYear :: "json \<Rightarrow> json option" where
  "episodeRangeYear edge =
     field ''year'' (field ''yearRange'' (field ''episodeCredits'' (field ''node'' (Some edge))))"

definition episodeRangeEndYear :: "json \<Rightarrow> json option" where
  "episodeRangeEndYear edge =
     field ''endYear'' (field ''yearRange'' (field ''episodeCredits'' (field ''node'' (Some edge))))"

definition directReleaseYear :: "json \<Rightarrow> json option" where
  "directReleaseYear edge =
     field ''year'' (field ''releaseYear'' (field ''title'' (field ''node'' (Some edge))))"

definition stringified :: "json option \<Rightarrow> string" where
  "stringified v = (case optToString v of Inr (Some s) \<Rightarrow> s | _ \<Rightarrow> '''')"

text \<open>
  The end year in the words of the specification: the episode-range \<^verbatim>\<open>endYear\<close> field,
  stringified, if present; else absence.
\<close>

definition spec_endYear :: "json \<Rightarrow> string option" where
  "spec_endYear edge =
     (if \<not> nullish (episodeRangeEndYear edge) then Some (stringified (episodeRangeEndYear edge))
      else None)"

section \<open>Sample payloads and a sample world\<close>

text \<open>A series with an episode range from 2015 to 2019, released in 2014.\<close>

definition edgeSeries :: json where
  "edgeSeries =
     JObj [(''node'', JObj
       [(''episodeCredits'', JObj [(''total'', JNum 12),
          (''yearRange'', JObj [(''year'', JNum 2015), (''endYear'', JNum 2019)])]),
        (''title'', JObj [(''releaseYear'', JObj [(''year'', JNum 2014)])])])]"

text \<open>An episode range whose \<^verbatim>\<open>endYear\<close> is there and is the empty string.\<close>

definition edgeEmptyEndYear :: json where
  "edgeEmptyEndYear =
     JObj [(''node'', JObj
       [(''episodeCredits'', JObj
          [(''yearRange'', JObj [(''year'', JNum 2019), (''endYear'', JStr '''')])])])]"

text \<open>An edge whose node holds \<^verbatim>\<open>title.titleText.text = "Show X"\<close> and nothing else.\<close>

definition edgeShowX :: json where
  "edgeShowX =
     JObj [(''node'', JObj [(''title'', JObj [(''titleText'', JObj [(''text'', JStr ''Show X'')])])])]"

text \<open>A released film with an identifier, a release year, a type and one character.\<close>

definition edgeMovieA :: json where
  "edgeMovieA =
     JObj [(''node'', JObj
       [(''title'', JObj [(''titleText'', JObj [(''text'', JStr ''Movie A'')]),
                          (''id'', JStr ''tt9999''),
                          (''releaseYear'', JObj [(''year'', JNum 2020)]),
                          (''titleType'', JObj [(''text'', JStr ''Movie'')])]),
        (''characters'', JArr [JObj [(''name'', JStr ''Hero'')]])])]"

text \<open>\<^verbatim>\<open>episodeCredits.yearRange\<close> is there and has no \<^verbatim>\<open>year\<close>.\<close>

definition edgeYearRangeEmpty :: json where
  "edgeYearRangeEmpty =
     JObj [(''node'', JObj [(''episodeCredits'', JObj [(''yearRange'', JObj [])])])]"

text \<open>\<^verbatim>\<open>title.releaseYear\<close> is there and has no \<^verbatim>\<open>year\<close>.\<close>

definition edgeReleaseYearEmpty :: json where
  "edgeReleaseYearEmpty =
     JObj [(''node'', JObj [(''title'', JObj [(''releaseYear'', JObj [])])])]"

text \<open>
  A series whose episode range gives only \<^verbatim>\<open>endYear\<close>, with a release year on the title.
\<close>

definition edgeEndYearOnly :: json where
  "edgeEndYearOnly =
     JObj [(''node'', JObj
       [(''episodeCredits'', JObj [(''yearRange'', JObj [(''endYear'', JNum 2021)])]),
        (''title'', JObj [(''releaseYear'', JObj [(''year'', JNum 2019)])])])]"

definition creditGroup :: "json list \<Rightarrow> json" where
  "creditGroup edges = JObj [(''credits'', JObj [(''edges'', JArr edges)])]"

definition payload :: "json list \<Rightarrow> json list \<Rightarrow> json" where
  "payload released unreleased =
     JObj [(''props'', JObj [(''pageProps'', JObj [(''mainColumnData'', JObj
       [(''releasedPrimaryCredits'', JArr released),
        (''unreleasedPrimaryCredits'', JArr unreleased)])])])]"

text \<open>
  Four pages. In the sample world a page body is the text of its own structured-data
  block, and \<open>pages\<close> is what that text decodes to.
\<close>

definition pages :: "(string \<times> json) list" where
  "pages =
     [(''A'', payload [creditGroup [edgeMovieA]] [creditGroup [edgeShowX]]),
      (''B'', payload [creditGroup [edgeMovieA], creditGroup [edgeShowX]] [creditGroup [edgeShowX]]),
      (''C'', payload [creditGroup [edgeMovieA]] [creditGroup [edgeEndYearOnly]]),
      (''D'', payload [creditGroup [edgeYearRangeEmpty]] [])]"

definition sampleEnv :: env where
  "sampleEnv =
     \<lparr> next_data = (\<lambda>html. if html = ''<html></html>'' then None else Some html),
       json_parse = map_of pages,
       fetch = map_of
         [(''https://www.imdb.com/name/nm1/'',
             \<lparr>status = 404, statusText = ''Not Found'', body = ''''\<rparr>),
          (''https://www.imdb.com/name/nm2/'',
             \<lparr>status = 200, statusText = ''OK'', body = ''A''\<rparr>)],
       connect_ok = True, query_ok = True, close_ok = True,
       insert_ok = (\<lambda>r. True) \<rparr>"

definition sampleState :: state where
  "sampleState =
     \<lparr> tblTalentIMDBResume =
         [\<lparr>TalentID = 1, IMDBLink = Some ''https://www.imdb.com/name/nm1/''\<rparr>,
          \<lparr>TalentID = 2, IMDBLink = Some ''https://www.imdb.com/name/nm2/''\<rparr>],
       tblImdbMetaData = [],
       console = [] \<rparr>"

section \<open>Lemmas on the identifier extractor\<close>

lemma matchAt_Some:
  assumes "matchAt s = Some t"
  shows "\<exists>ds rest. s = ''/name/nm'' @ ds @ rest \<and> (ds \<noteq> [] \<and> list_all isDigit ds \<and>
           (case rest of [] \<Rightarrow> True | c # _ \<Rightarrow> \<not> isDigit c) \<and> t = ''nm'' @ ds)"
proof -
  let ?ds = "takeWhile isDigit (drop 8 s)" and ?rest = "dropWhile isDigit (drop 8 s)"
  from assms have pre: "take 8 s = ''/name/nm''" and ne: "?ds \<noteq> []" and t: "t = ''nm'' @ ?ds"
    by (auto simp: matchAt_def split: if_splits)
  have "s = take 8 s @ drop 8 s" by simp
  then have "s = ''/name/nm'' @ ?ds @ ?rest" using pre by simp
  moreover have "list_all isDigit ?ds"
    by (auto simp: list_all_iff dest: set_takeWhileD)
  moreover have "case ?rest of [] \<Rightarrow> True | c # _ \<Rightarrow> \<not> isDigit c"
    by (auto split: list.splits simp: dropWhile_eq_Cons_conv)
  ultimately show ?thesis using ne t by blast
qed

lemma matchAt_defined_iff:
  "matchAt s \<noteq> None \<longleftrightarrow> (\<exists>d rest. s = ''/name/nm'' @ d # rest \<and> isDigit d)"
proof
  assume "matchAt s \<noteq> None"
  then have pre: "take 8 s = ''/name/nm''" and ne: "takeWhile isDigit (drop 8 s) \<noteq> []"
    by (auto simp: matchAt_def split: if_splits)
  from ne obtain d rest where dr: "drop 8 s = d # rest" and d: "isDigit d"
    by (cases "drop 8 s") (auto split: if_splits)
  have "s = take 8 s @ drop 8 s" by simp
  then have "s = ''/name/nm'' @ d # rest" using pre dr by simp
  then show "\<exists>d rest. s = ''/name/nm'' @ d # rest \<and> isDigit d" using d by blast
next
  assume "\<exists>d rest. s = ''/name/nm'' @ d # rest \<and> isDigit d"
  then obtain d rest where "s = ''/name/nm'' @ d # rest" and "isDigit d" by blast
  then show "matchAt s \<noteq> None" by (simp add: matchAt_def)
qed

lemma matchAt_Nil: "matchAt [] = None"
  by (simp add: matchAt_def)

lemma search_None_iff:
  "search s = None \<longleftrightarrow> (\<forall>pre suf. s = pre @ suf \<longrightarrow> matchAt suf = None)"
proof (induction s)
  case Nil
  show ?case by (simp add: matchAt_Nil)
next
  case (Cons c cs)
  have "search (c # cs) = None \<longleftrightarrow> matchAt (c # cs) = None \<and> search cs = None"
    by (simp split: option.splits)
  also have "\<dots> \<longleftrightarrow> matchAt (c # cs) = None \<and> (\<forall>pre suf. cs = pre @ suf \<longrightarrow> matchAt suf = None)"
    using Cons.IH by simp
  also have "\<dots> \<longleftrightarrow> (\<forall>pre suf. c # cs = pre @ suf \<longrightarrow> matchAt suf = None)"
    by (auto simp: Cons_eq_append_conv)
  finally show ?case .
qed

lemma search_Some:
  "search s = Some t \<Longrightarrow> \<exists>pre suf. s = pre @ suf \<and> matchAt suf = Some t"
proof (induction s)
  case Nil
  then show ?case by simp
next
  case (Cons c cs)
  show ?case
  proof (cases "matchAt (c # cs)")
    case None
    then have "search cs = Some t" using Cons.prems by simp
    then obtain pre suf where "cs = pre @ suf" and "matchAt suf = Some t"
      using Cons.IH by blast
    then have "c # cs = (c # pre) @ suf \<and> matchAt suf = Some t" by simp
    then show ?thesis by blast
  next
    case (Some u)
    then have "u = t" using Cons.prems by simp
    then have "c # cs = [] @ (c # cs) \<and> matchAt (c # cs) = Some t" using Some by simp
    then show ?thesis by blast
  qed
qed

lemma extractImdbId_search: "extractImdbId (Some s) = search s"
  by (cases s) (simp_all add: extractImdbId_def)

lemma ex_suffix_shift:
  "(\<exists>pre suf. s = pre @ suf \<and> (\<exists>d rest. suf = P @ d # rest \<and> Q d)) \<longleftrightarrow>
   (\<exists>pre d rest. s = pre @ P @ d # rest \<and> Q d)"
  by blast

lemma ex_suffix_token:
  "s = pre @ suf \<Longrightarrow> \<exists>ds rest. suf = P @ ds @ rest \<and> R ds rest \<Longrightarrow>
   \<exists>pre ds rest. s = pre @ P @ ds @ rest \<and> R ds rest"
  by blast

lemma search_defined_iff:
  "search s \<noteq> None \<longleftrightarrow> (\<exists>pre d rest. s = pre @ ''/name/nm'' @ d # rest \<and> isDigit d)"
proof -
  have "search s \<noteq> None \<longleftrightarrow> (\<exists>pre suf. s = pre @ suf \<and> matchAt suf \<noteq> None)"
    by (simp only: search_None_iff not_all not_imp)
  also have "\<dots> \<longleftrightarrow> (\<exists>pre suf. s = pre @ suf \<and>
                 (\<exists>d rest. suf = ''/name/nm'' @ d # rest \<and> isDigit d))"
    by (simp only: matchAt_defined_iff)
  also have "\<dots> \<longleftrightarrow> (\<exists>pre d rest. s = pre @ ''/name/nm'' @ d # rest \<and> isDigit d)"
    by (rule ex_suffix_shift)
  finally show ?thesis .
qed

lemma search_token:
  assumes "search s = Some t"
  shows "\<exists>pre ds rest. s = pre @ ''/name/nm'' @ ds @ rest \<and> (ds \<noteq> [] \<and>
           list_all isDigit ds \<and> (case rest of [] \<Rightarrow> True | c # _ \<Rightarrow> \<not> isDigit c) \<and>
           t = ''nm'' @ ds)"
proof -
  from search_Some [OF assms] obtain pre suf where s: "s = pre @ suf" and m: "matchAt suf = Some t"
    by (elim exE conjE)
  show ?thesis
    by (rule ex_suffix_token [OF s matchAt_Some [OF m]])
qed

section \<open>Lemmas on the sync driver\<close>

lemma emit_tbl [simp]:
  "tblImdbMetaData (emit d st) = tblImdbMetaData st"
  "tblTalentIMDBResume (emit d st) = tblTalentIMDBResume st"
  by (simp_all add: emit_def)

lemma insertCredits_tbl:
  "tblImdbMetaData (fst (insertCredits w tid cs st)) =
     tblImdbMetaData st @ map (Pair tid) (takeWhile (\<lambda>c. insert_ok w (tid, c)) cs)"
  by (induction cs arbitrary: st) (simp_all add: Let_def)

lemma insertCredits_src:
  "tblTalentIMDBResume (fst (insertCredits w tid cs st)) = tblTalentIMDBResume st"
  by (induction cs arbitrary: st) (simp_all add: Let_def)

lemma tryRow_tbl:
  "tblImdbMetaData (fst (tryRow w r st)) = tblImdbMetaData st @ persisted w r"
  by (simp add: tryRow_def persisted_def Let_def insertCredits_tbl
           split: option.splits sum.splits prod.splits)

lemma tryRow_src:
  "tblTalentIMDBResume (fst (tryRow w r st)) = tblTalentIMDBResume st"
  by (simp add: tryRow_def Let_def insertCredits_src
           split: option.splits sum.splits prod.splits)

text \<open>The \<^verbatim>\<open>catch\<close> of a row lets no error through.\<close>

lemma processRow_caught: "snd (processRow w r st) = None"
  by (simp add: processRow_def split: prod.splits option.splits)

lemma processRow_tbl:
  "tblImdbMetaData (fst (processRow w r st)) = tblImdbMetaData st @ persisted w r"
  using tryRow_tbl [of w r st]
  by (cases "tryRow w r st") (simp add: processRow_def split: option.splits)

lemma processRow_src:
  "tblTalentIMDBResume (fst (processRow w r st)) = tblTalentIMDBResume st"
  using tryRow_src [of w r st]
  by (cases "tryRow w r st") (simp add: processRow_def split: option.splits)

lemma inserted_persisted: "inserted w r = persisted w r"
  by (simp add: inserted_def processRow_tbl)

lemma forRows_caught: "snd (forRows w rs st) = None"
proof (induction rs arbitrary: st)
  case Nil
  show ?case by simp
next
  case (Cons r rs)
  obtain st' where "processRow w r st = (st', None)"
    using processRow_caught [of w r st] by (cases "processRow w r st") auto
  then show ?case using Cons.IH by simp
qed

lemma forRows_tbl:
  "tblImdbMetaData (fst (forRows w rs st)) = tblImdbMetaData st @ concat (map (persisted w) rs)"
proof (induction rs arbitrary: st)
  case Nil
  show ?case by simp
next
  case (Cons r rs)
  obtain st' where p: "processRow w r st = (st', None)"
    using processRow_caught [of w r st] by (cases "processRow w r st") auto
  have "tblImdbMetaData st' = tblImdbMetaData st @ persisted w r"
    using processRow_tbl [of w r st] p by simp
  then show ?case using Cons.IH [of st'] p by simp
qed

lemma forRows_src:
  "tblTalentIMDBResume (fst (forRows w rs st)) = tblTalentIMDBResume st"
proof (induction rs arbitrary: st)
  case Nil
  show ?case by simp
next
  case (Cons r rs)
  obtain st' where p: "processRow w r st = (st', None)"
    using processRow_caught [of w r st] by (cases "processRow w r st") auto
  have "tblTalentIMDBResume st' = tblTalentIMDBResume st"
    using processRow_src [of w r st] p by simp
  then show ?case using Cons.IH [of st'] p by simp
qed

text \<open>Every row a source row adds carries that row's key.\<close>

lemma persisted_key: "fst ` set (persisted w r) \<subseteq> {TalentID r}"
  by (auto simp: persisted_def split: option.splits sum.splits)

text \<open>The driver in closed form: which errors reach the caller, and from where.\<close>

lemma processAll_eq:
  "processAllExistingImdbLinks w st =
     (if \<not> connect_ok w then (emit (ConsoleError ''Database error:'') st, None)
      else if \<not> query_ok w
      then (emit (ConsoleError ''Database error:'') st, if close_ok w then None else Some SqlError)
      else (fst (forRows w (pending st) st), if close_ok w then None else Some SqlError))"
proof -
  obtain st' where "forRows w (pending st) st = (st', None)"
    using forRows_caught [of w "pending st" st] by (cases "forRows w (pending st) st") auto
  then show ?thesis
    by (simp add: processAllExistingImdbLinks_def)
qed

lemma main_tbl: "tblImdbMetaData (fst (main w st)) = tblImdbMetaData st @ added w st"
  by (simp add: main_def processAll_eq added_def forRows_tbl)

lemma main_src: "tblTalentIMDBResume (fst (main w st)) = tblTalentIMDBResume st"
  by (simp add: main_def processAll_eq forRows_src)

lemma main_exit: "snd (main w st) = (if connect_ok w \<and> \<not> close_ok w then 1 else 0)"
  by (simp add: main_def processAll_eq)

text \<open>
  A row still pending after a run was pending before it and added nothing: any row it
  had added would carry its key and take it out of the pending set.
\<close>

lemma still_pending_rowless:
  assumes "r \<in> set (pending (fst (main w st)))" and "connect_ok w" "query_ok w"
  shows "persisted w r = []"
proof -
  let ?st1 = "fst (main w st)"
  have out1: "tblImdbMetaData ?st1 = tblImdbMetaData st @ concat (map (persisted w) (pending st))"
    using main_tbl [of w st] assms(2,3) by (simp add: added_def)
  have src: "r \<in> set (tblTalentIMDBResume st)"
    and notin1: "TalentID r \<notin> fst ` set (tblImdbMetaData ?st1)"
    using assms(1) by (auto simp: pending_def main_src)
  have "TalentID r \<notin> fst ` set (tblImdbMetaData st)"
    using notin1 out1 by auto
  then have pend: "r \<in> set (pending st)"
    using src by (auto simp: pending_def)
  have sub: "set (persisted w r) \<subseteq> set (tblImdbMetaData ?st1)"
    using pend out1 by auto
  have key: "fst ` set (persisted w r) \<subseteq> {TalentID r}"
    by (rule persisted_key)
  have "x \<notin> set (persisted w r)" for x
  proof
    assume x: "x \<in> set (persisted w r)"
    then have "fst x = TalentID r"
      using key by auto
    moreover have "fst x \<in> fst ` set (tblImdbMetaData ?st1)"
      using x sub by auto
    ultimately show False
      using notin1 by simp
  qed
  then show ?thesis
    by (cases "persisted w r") auto
qed

lemma added_again: "added w (fst (main w st)) = []"
proof (cases "connect_ok w \<and> query_ok w")
  case True
  then have "\<forall>r \<in> set (pending (fst (main w st))). persisted w r = []"
    using still_pending_rowless by blast
  then show ?thesis by (simp add: added_def)
next
  case False
  then show ?thesis by (auto simp: added_def)
qed

lemma inserted_eq: "inserted w = persisted w"
  by (rule ext) (rule inserted_persisted)

section \<open>Lemmas on the payload normalizer\<close>

lemma forEdges_acc:
  "forEdges es acc = (case forEdges es [] of Inl e \<Rightarrow> Inl e | Inr cs \<Rightarrow> Inr (acc @ cs))"
proof (induction es arbitrary: acc)
  case Nil
  show ?case by simp
next
  case (Cons e es)
  show ?case
  proof (cases "normalizeEdge e")
    case (Inl err)
    then show ?thesis by simp
  next
    case (Inr c)
    then show ?thesis
      using Cons.IH [of "acc @ [c]"] Cons.IH [of "[c]"]
      by (simp split: sum.splits)
  qed
qed

text \<open>The loop returns exactly when every edge normalizes, one credit per edge, in order.\<close>

lemma forEdges_returns_iff:
  "forEdges es [] = Inr cs \<longleftrightarrow> map normalizeEdge es = map Inr cs"
proof (induction es arbitrary: cs)
  case Nil
  show ?case by auto
next
  case (Cons e es)
  show ?case
  proof (cases "normalizeEdge e")
    case (Inl err)
    then show ?thesis by (auto simp: map_eq_Cons_conv)
  next
    case (Inr c)
    have "forEdges (e # es) [] = Inr cs \<longleftrightarrow> (\<exists>cs'. forEdges es [] = Inr cs' \<and> cs = c # cs')"
      using Inr forEdges_acc [of es "[c]"] by (auto split: sum.splits)
    also have "\<dots> \<longleftrightarrow> (\<exists>cs'. map normalizeEdge es = map Inr cs' \<and> cs = c # cs')"
      using Cons.IH by simp
    also have "\<dots> \<longleftrightarrow> map normalizeEdge (e # es) = map Inr cs"
      using Inr by (cases cs) auto
    finally show ?thesis .
  qed
qed

text \<open>
  With both containers present as arrays, the loop runs over the edges of the released
  groups followed by those of the unreleased groups.
\<close>

lemma extract_both_containers:
  assumes "next_data w html = Some s" and "s \<noteq> []" and "json_parse w s = Some j"
    and "field ''releasedPrimaryCredits'' (mainColumnData j) = Some (JArr rs)"
    and "field ''unreleasedPrimaryCredits'' (mainColumnData j) = Some (JArr us)"
  shows "extractFilmographyFromHtml w html =
           ([], forEdges (flatMap edgesOf rs @ flatMap edgesOf us) [])"
  using assms
  by (simp add: extractFilmographyFromHtml_def or_default_def flatMap_def)

text \<open>
  So whenever the function returns on such a document, it returns one credit per edge,
  released first, in source order.
\<close>

lemma released_then_unreleased_when_returned:
  assumes "next_data w html = Some s" and "s \<noteq> []" and "json_parse w s = Some j"
    and "field ''releasedPrimaryCredits'' (mainColumnData j) = Some (JArr rs)"
    and "field ''unreleasedPrimaryCredits'' (mainColumnData j) = Some (JArr us)"
    and "extractFilmographyFromHtml w html = (ds, Inr cs)"
  shows "map Inr cs = map normalizeEdge (flatMap edgesOf rs @ flatMap edgesOf us)"
    and "length cs = length (flatMap edgesOf rs) + length (flatMap edgesOf us)"
proof -
  have "forEdges (flatMap edgesOf rs @ flatMap edgesOf us) [] = Inr cs"
    using extract_both_containers [OF assms(1-5)] assms(6) by simp
  then have m: "map normalizeEdge (flatMap edgesOf rs @ flatMap edgesOf us) = map Inr cs"
    by (simp only: forEdges_returns_iff)
  then show "map Inr cs = map normalizeEdge (flatMap edgesOf rs @ flatMap edgesOf us)"
    by simp
  have "length (map normalizeEdge (flatMap edgesOf rs @ flatMap edgesOf us)) = length (map Inr cs)"
    using m by simp
  then show "length cs = length (flatMap edgesOf rs) + length (flatMap edgesOf us)"
    by simp
qed

lemma field_nullish: "nullish v \<Longrightarrow> field k v = None"
  by (cases v rule: nullish.cases) simp_all

lemma callToString_Inr: "callToString v = Inr s \<Longrightarrow> optToString v = Inr (Some s)"
  by (cases v rule: callToString.cases) simp_all

lemma stringified_None: "stringified None = ''''"
  by (simp add: stringified_def)

lemma fromYearOf_rule:
  assumes "fromYearOf (field ''node'' (Some edge)) = Inr fy"
  shows "fy = (if stringified (episodeRangeYear edge) \<noteq> ''''
               then stringified (episodeRangeYear edge)
               else stringified (directReleaseYear edge))"
proof -
  let ?node = "field ''node'' (Some edge)"
  let ?yr = "field ''yearRange'' (field ''episodeCredits'' ?node)"
  let ?ry = "field ''releaseYear'' (field ''title'' ?node)"
  obtain a where a: "episodeYear ?node = Inr a"
    using assms by (cases "episodeYear ?node") (simp_all add: fromYearOf_def)
  have sa: "stringified (episodeRangeYear edge) = (case a of None \<Rightarrow> '''' | Some s \<Rightarrow> s)"
  proof (cases "nullish ?yr")
    case True
    then show ?thesis
      using a by (auto simp: episodeYear_def episodeRangeYear_def field_nullish stringified_None)
  next
    case False
    then obtain s where "callToString (field ''year'' ?yr) = Inr s" and "a = Some s"
      using a by (auto simp: episodeYear_def split: sum.splits)
    then show ?thesis
      by (simp add: episodeRangeYear_def stringified_def callToString_Inr)
  qed
  show ?thesis
  proof (cases "truthyStr a")
    case True
    then show ?thesis
      using assms a sa by (cases a) (simp_all add: fromYearOf_def)
  next
    case False
    then have e: "stringified (episodeRangeYear edge) = ''''"
      using sa by (cases a) simp_all
    obtain b where b: "releaseYear ?node = Inr b"
      using assms a False by (cases "releaseYear ?node") (simp_all add: fromYearOf_def)
    have sb: "stringified (directReleaseYear edge) = (case b of None \<Rightarrow> '''' | Some s \<Rightarrow> s)"
    proof (cases "nullish ?ry")
      case True
      then show ?thesis
        using b by (auto simp: releaseYear_def directReleaseYear_def field_nullish stringified_None)
    next
      case False
      then obtain s where "callToString (field ''year'' ?ry) = Inr s" and "b = Some s"
        using b by (auto simp: releaseYear_def split: sum.splits)
      then show ?thesis
        by (simp add: directReleaseYear_def stringified_def callToString_Inr)
    qed
    show ?thesis
      using assms a b False e sb by (cases b) (auto simp: fromYearOf_def split: if_splits)
  qed
qed

lemma toYearOf_rule:
  assumes "toYearOf (field ''node'' (Some edge)) = Inr ty"
  shows "ty = (if stringified (episodeRangeEndYear edge) \<noteq> ''''
               then Some (stringified (episodeRangeEndYear edge)) else None)"
proof -
  let ?ee = "field ''endYear'' (field ''yearRange'' (field ''episodeCredits'' (field ''node'' (Some edge))))"
  obtain a where a: "optToString ?ee = Inr a"
    using assms by (cases "optToString ?ee") (simp_all add: toYearOf_def)
  have "stringified (episodeRangeEndYear edge) = (case a of None \<Rightarrow> '''' | Some s \<Rightarrow> s)"
    using a by (simp add: stringified_def episodeRangeEndYear_def split: option.splits)
  then show ?thesis
    using assms a by (cases a) (auto simp: toYearOf_def)
qed

lemma normalizeEdge_years:
  assumes "normalizeEdge edge = Inr r"
  shows "fromYearOf (field ''node'' (Some edge)) = Inr (fromYear r)"
    and "toYearOf (field ''node'' (Some edge)) = Inr (toYear r)"
  using assms by (auto simp: normalizeEdge_def Let_def split: sum.splits)

text \<open>
  What the older function reads of a payload with a non-empty released container: the
  edges of the first group. Later groups and the unreleased container do not occur.
\<close>

lemma firstReleasedEdges_payload:
  "firstReleasedEdges (payload (g # gs) us) = field ''edges'' (field ''credits'' (Some g))"
  by (simp add: firstReleasedEdges_def payload_def mainColumnData_def)

section \<open>The claims\<close>

subsection \<open>C1: a missing field never makes the normalizer throw\<close>

text \<open>
  Claim C1. For every edge, no field of the normalized record makes
  \<^verbatim>\<open>extractFilmographyFromHtml\<close> throw by being absent, at any depth; in particular an
  edge whose \<^verbatim>\<open>episodeCredits.yearRange\<close> exists without \<^verbatim>\<open>year\<close>, or whose
  \<^verbatim>\<open>title.releaseYear\<close> exists without \<^verbatim>\<open>year\<close>, still normalizes.

  The code of \<^verbatim>\<open>src/index.js\<close> does not do this. On both edges named by the claim the
  loop body throws a TypeError, and a page holding such an edge makes the whole function
  throw. The older file guards the same read with \<^verbatim>\<open>?.\<close> and returns the defaults.
\<close>

theorem C1_missing_year_throws:
  "normalizeEdge edgeYearRangeEmpty = Inl TypeError
   \<and> normalizeEdge edgeReleaseYearEmpty = Inl TypeError
   \<and> extractFilmographyFromHtml sampleEnv ''D'' = ([], Inl TypeError)
   \<and> normalizeEdge_part000 edgeReleaseYearEmpty =
       Inr \<lparr>title0 = JStr '''', titleUrl0 = '''', year0 = '''', type0 = JStr '''', role0 = JStr ''''\<rparr>"
  by code_simp

text \<open>The page-level part on its own: page \<open>''D''\<close> makes the function throw.\<close>

theorem C1_missing_year_throws_witness:
  "extractFilmographyFromHtml sampleEnv ''D'' = ([], Inl TypeError)"
  by (rule conjunct1 [OF conjunct2 [OF conjunct2 [OF C1_missing_year_throws]]])

subsection \<open>C2: exit status\<close>

text \<open>
  Claim C2. The process exits with status 0 on normal completion and with a non-zero
  status exactly when the storage connection cannot be established or the pending-set
  query fails.

  As stated this fails: when \<^verbatim>\<open>sql.connect\<close> rejects, the \<^verbatim>\<open>catch\<close> inside
  \<^verbatim>\<open>processAllExistingImdbLinks\<close> prints the error and the process exits with 0.
\<close>

theorem C2_counterexample:
  "\<not> ((snd (main (sampleEnv\<lparr>connect_ok := False\<rparr>) sampleState) \<noteq> 0) =
       (\<not> connect_ok (sampleEnv\<lparr>connect_ok := False\<rparr>)
        \<or> \<not> query_ok (sampleEnv\<lparr>connect_ok := False\<rparr>)))"
  by code_simp

text \<open>
  Claim C2, amended. The exit status is 0 whenever \<^verbatim>\<open>processAllExistingImdbLinks\<close>
  returns, which covers runs with failed entities, a failed connection and a failed
  pending-set query; it is 1 exactly when the connection was established and closing
  the pool in \<^verbatim>\<open>finally\<close> throws.
\<close>

theorem C2_exit_status:
  "snd (main w st) = (if connect_ok w \<and> \<not> close_ok w then 1 else 0)"
  by (rule main_exit)

subsection \<open>C3: released edges, then unreleased edges\<close>

text \<open>
  Claim C3. For every document whose decoded payload has both a released and an
  unreleased container, the output has one record per edge of the two containers,
  released first, each group in source order.

  The code breaks this on the sample page \<open>''C''\<close>: it has one released and one
  unreleased edge, the unreleased one with an episode range that lacks \<^verbatim>\<open>year\<close>, and the
  function throws instead of returning two records. Lemma
  \<open>released_then_unreleased_when_returned\<close> gives the order and the length whenever the
  function does return.
\<close>

theorem C3_both_containers_throws:
  "json_parse sampleEnv ''C'' =
     Some (payload [creditGroup [edgeMovieA]] [creditGroup [edgeEndYearOnly]])
   \<and> extractFilmographyFromHtml sampleEnv ''C'' = ([], Inl TypeError)"
  by code_simp

theorem C3_both_containers_throws_witness:
  "extractFilmographyFromHtml sampleEnv ''C'' = ([], Inl TypeError)"
  by (rule conjunct2 [OF C3_both_containers_throws])

subsection \<open>C4: one entity's failure does not stop the batch\<close>

text \<open>
  Claim C4. For every batch of rows, an error of the fetch, normalize or persist phase
  of one row is caught at that row and the loop goes on: no error leaves the loop, and
  the output table gains, for each row in turn, exactly the rows that row adds when
  processed alone. When the run has two pending rows, the fetch of the first fails and
  the second succeeds (its page is fetched, normalized and every INSERT succeeds), all
  credits of the second are persisted and the exit status is 0.
\<close>

theorem C4_failure_isolation:
  "snd (forRows w rows st) = None
   \<and> tblImdbMetaData (fst (forRows w rows st)) = tblImdbMetaData st @ concat (map (inserted w) rows)
   \<and> (connect_ok w \<and> query_ok w \<and> close_ok w \<and> pending st = [a, b]
        \<and> extractImdbId (IMDBLink a) = Some ia \<and> fetchImdbPage w ia = Inl e
        \<and> extractImdbId (IMDBLink b) = Some ib \<and> fetchImdbPage w ib = Inr pageHtml
        \<and> extractFilmographyFromHtml w pageHtml = (ds, Inr credits)
        \<and> (\<forall>c \<in> set credits. insert_ok w (TalentID b, c))
      \<longrightarrow> tblImdbMetaData (fst (main w st)) = tblImdbMetaData st @ map (Pair (TalentID b)) credits
          \<and> snd (main w st) = 0)"
proof (intro conjI impI)
  show "snd (forRows w rows st) = None"
    by (rule forRows_caught)
  show "tblImdbMetaData (fst (forRows w rows st)) = tblImdbMetaData st @ concat (map (inserted w) rows)"
    by (simp add: forRows_tbl inserted_eq)
next
  assume h: "connect_ok w \<and> query_ok w \<and> close_ok w \<and> pending st = [a, b]
        \<and> extractImdbId (IMDBLink a) = Some ia \<and> fetchImdbPage w ia = Inl e
        \<and> extractImdbId (IMDBLink b) = Some ib \<and> fetchImdbPage w ib = Inr pageHtml
        \<and> extractFilmographyFromHtml w pageHtml = (ds, Inr credits)
        \<and> (\<forall>c \<in> set credits. insert_ok w (TalentID b, c))"
  have pa: "persisted w a = []"
    using h by (simp add: persisted_def)
  have tw: "takeWhile (\<lambda>c. insert_ok w (TalentID b, c)) credits = credits"
    using h by (simp add: takeWhile_eq_all_conv)
  have pb: "persisted w b = map (Pair (TalentID b)) credits"
    using h by (simp add: persisted_def tw)
  show "tblImdbMetaData (fst (main w st)) = tblImdbMetaData st @ map (Pair (TalentID b)) credits"
    using h pa pb by (simp add: main_tbl added_def)
  show "snd (main w st) = 0"
    using h by (simp add: main_exit)
qed

text \<open>
  In the sample world row 1 is answered with status 404 and row 2 with a page of two
  credits; both credits of row 2 reach the table and the exit status is 0.
\<close>

theorem C4_failure_isolation_witness:
  "connect_ok sampleEnv \<and> query_ok sampleEnv \<and> close_ok sampleEnv
   \<and> pending sampleState =
        [\<lparr>TalentID = 1, IMDBLink = Some ''https://www.imdb.com/name/nm1/''\<rparr>,
         \<lparr>TalentID = 2, IMDBLink = Some ''https://www.imdb.com/name/nm2/''\<rparr>]
   \<and> fetchImdbPage sampleEnv ''nm1'' = Inl (FetchError ''Failed to fetch IMDb page: 404 Not Found'')
   \<and> fetchImdbPage sampleEnv ''nm2'' = Inr ''A''
   \<and> tblImdbMetaData (fst (main sampleEnv sampleState)) =
        [(2, \<lparr>title = JStr ''Movie A'', titleUrl = ''https://www.imdb.com/title/tt9999/'',
               fromYear = ''2020'', toYear = None, noOfEpisodes = JNum 0,
               type = JStr ''Movie'', role = JStr ''Hero'', currentProductionStage = JStr ''''\<rparr>),
         (2, \<lparr>title = JStr ''Show X'', titleUrl = '''', fromYear = '''', toYear = None,
               noOfEpisodes = JNum 0, type = JStr '''', role = JStr '''',
               currentProductionStage = JStr ''''\<rparr>)]
   \<and> snd (main sampleEnv sampleState) = 0"
proof -
  let ?a = "\<lparr>TalentID = 1, IMDBLink = Some ''https://www.imdb.com/name/nm1/''\<rparr>"
  let ?b = "\<lparr>TalentID = 2, IMDBLink = Some ''https://www.imdb.com/name/nm2/''\<rparr>"
  let ?credits =
    "[\<lparr>title = JStr ''Movie A'', titleUrl = ''https://www.imdb.com/title/tt9999/'',
        fromYear = ''2020'', toYear = None, noOfEpisodes = JNum 0,
        type = JStr ''Movie'', role = JStr ''Hero'', currentProductionStage = JStr ''''\<rparr>,
      \<lparr>title = JStr ''Show X'', titleUrl = '''', fromYear = '''', toYear = None,
        noOfEpisodes = JNum 0, type = JStr '''', role = JStr '''',
        currentProductionStage = JStr ''''\<rparr>]"
  have env: "connect_ok sampleEnv" "query_ok sampleEnv" "close_ok sampleEnv"
    by (simp_all add: sampleEnv_def)
  have pend: "pending sampleState = [?a, ?b]"
    by code_simp
  have ia: "extractImdbId (IMDBLink ?a) = Some ''nm1''"
    by code_simp
  have fa: "fetchImdbPage sampleEnv ''nm1'' = Inl (FetchError ''Failed to fetch IMDb page: 404 Not Found'')"
    by code_simp
  have ib: "extractImdbId (IMDBLink ?b) = Some ''nm2''"
    by code_simp
  have fb: "fetchImdbPage sampleEnv ''nm2'' = Inr ''A''"
    by code_simp
  have ex: "extractFilmographyFromHtml sampleEnv ''A'' = ([], Inr ?credits)"
    by code_simp
  have ins: "\<forall>c \<in> set ?credits. insert_ok sampleEnv (TalentID ?b, c)"
    by (simp add: sampleEnv_def)
  have empty: "tblImdbMetaData sampleState = []"
    by (simp add: sampleState_def)
  have hyp: "connect_ok sampleEnv \<and> query_ok sampleEnv \<and> close_ok sampleEnv
        \<and> pending sampleState = [?a, ?b]
        \<and> extractImdbId (IMDBLink ?a) = Some ''nm1''
        \<and> fetchImdbPage sampleEnv ''nm1'' = Inl (FetchError ''Failed to fetch IMDb page: 404 Not Found'')
        \<and> extractImdbId (IMDBLink ?b) = Some ''nm2'' \<and> fetchImdbPage sampleEnv ''nm2'' = Inr ''A''
        \<and> extractFilmographyFromHtml sampleEnv ''A'' = ([], Inr ?credits)
        \<and> (\<forall>c \<in> set ?credits. insert_ok sampleEnv (TalentID ?b, c))"
    using env pend ia fa ib fb ex ins by (intro conjI)
  have concl: "tblImdbMetaData (fst (main sampleEnv sampleState)) =
          tblImdbMetaData sampleState @ map (Pair (TalentID ?b)) ?credits
        \<and> snd (main sampleEnv sampleState) = 0"
    by (rule mp [OF conjunct2 [OF conjunct2 [OF C4_failure_isolation]] hyp])
  show ?thesis
    using env pend fa fb concl empty by simp
qed

subsection \<open>C5: the identifier extractor\<close>

text \<open>
  Claim C5. \<^verbatim>\<open>extractImdbId\<close> never throws and returns a token exactly when the string
  contains \<^verbatim>\<open>/name/<TOKEN>/\<close>, the token a letter prefix followed by digits; otherwise
  \<^verbatim>\<open>null\<close>.

  As stated this fails in both directions: a link without the closing slash yields a
  token, and a link whose token has another letter prefix yields none.
\<close>

theorem C5_counterexample:
  "extractImdbId (Some ''https://www.imdb.com/name/nm0000123'') = Some ''nm0000123''
   \<and> \<not> spec_containsToken ''https://www.imdb.com/name/nm0000123''
   \<and> extractImdbId (Some ''https://www.imdb.com/name/tt0000123/'') = None
   \<and> spec_containsToken ''https://www.imdb.com/name/tt0000123/''"
  by code_simp

text \<open>
  Claim C5, amended. \<^verbatim>\<open>extractImdbId\<close> is total: \<^verbatim>\<open>null\<close> gives \<^verbatim>\<open>null\<close>. For a string
  it returns a token exactly when the string contains \<^verbatim>\<open>/name/nm\<close> followed by a
  decimal digit; no closing slash is needed and the prefix is the literal \<^verbatim>\<open>nm\<close>. The
  token is \<^verbatim>\<open>nm\<close> followed by a run of digits that stands right after \<^verbatim>\<open>/name/nm\<close> in the
  string and is not followed by a further digit.
\<close>

theorem C5_token_when_name_nm_digits:
  "extractImdbId None = None
   \<and> ((extractImdbId (Some s) \<noteq> None) =
        (\<exists>pre d rest. s = pre @ ''/name/nm'' @ d # rest \<and> isDigit d))
   \<and> (extractImdbId (Some s) = Some t \<longrightarrow>
        (\<exists>pre ds rest. s = pre @ ''/name/nm'' @ ds @ rest \<and> (ds \<noteq> [] \<and>
           list_all isDigit ds \<and> (case rest of [] \<Rightarrow> True | c # _ \<Rightarrow> \<not> isDigit c) \<and>
           t = ''nm'' @ ds)))"
proof (intro conjI impI)
  show "extractImdbId None = None"
    by (simp add: extractImdbId_def)
  show "(extractImdbId (Some s) \<noteq> None) =
        (\<exists>pre d rest. s = pre @ ''/name/nm'' @ d # rest \<and> isDigit d)"
    unfolding extractImdbId_search by (rule search_defined_iff)
next
  assume "extractImdbId (Some s) = Some t"
  then have "search s = Some t"
    by (simp only: extractImdbId_search)
  then show "\<exists>pre ds rest. s = pre @ ''/name/nm'' @ ds @ rest \<and> (ds \<noteq> [] \<and>
           list_all isDigit ds \<and> (case rest of [] \<Rightarrow> True | c # _ \<Rightarrow> \<not> isDigit c) \<and>
           t = ''nm'' @ ds)"
    by (rule search_token)
qed

theorem C5_token_when_name_nm_digits_witness:
  "extractImdbId (Some ''https://www.imdb.com/name/nm0000123'') = Some ''nm0000123''
   \<and> (\<exists>pre ds rest. ''https://www.imdb.com/name/nm0000123'' = pre @ ''/name/nm'' @ ds @ rest \<and>
         (ds \<noteq> [] \<and> list_all isDigit ds \<and>
          (case rest of [] \<Rightarrow> True | c # _ \<Rightarrow> \<not> isDigit c) \<and> ''nm0000123'' = ''nm'' @ ds))"
proof -
  have e: "extractImdbId (Some ''https://www.imdb.com/name/nm0000123'') = Some ''nm0000123''"
    by code_simp
  show ?thesis
    by (rule conjI [OF e mp [OF conjunct2 [OF conjunct2 [OF C5_token_when_name_nm_digits]] e]])
qed

subsection \<open>C6: a missing or undecodable structured-data block\<close>

text \<open>
  Claim C6. For every document whose structured-data block is absent, or present and
  not decodable, the normalizer returns the empty sequence, prints the condition with
  \<^verbatim>\<open>console.error\<close> and nothing else, and does not throw.
\<close>

theorem C6_malformed_document:
  assumes "next_data w html = None \<or> (\<exists>s. next_data w html = Some s \<and> json_parse w s = None)"
  shows "extractFilmographyFromHtml w html =
           ([ConsoleError ''__NEXT_DATA__ not found in HTML''], Inr [])
       \<or> extractFilmographyFromHtml w html =
           ([ConsoleError ''Failed to parse __NEXT_DATA__ JSON:''], Inr [])"
  using assms
proof (elim disjE exE conjE)
  assume "next_data w html = None"
  then show ?thesis
    by (simp add: extractFilmographyFromHtml_def)
next
  fix s
  assume "next_data w html = Some s" and "json_parse w s = None"
  then show ?thesis
    by (cases "s = []") (simp_all add: extractFilmographyFromHtml_def)
qed

theorem C6_malformed_document_witness:
  "next_data sampleEnv ''<html></html>'' = None
   \<and> extractFilmographyFromHtml sampleEnv ''<html></html>'' =
        ([ConsoleError ''__NEXT_DATA__ not found in HTML''], Inr [])"
proof -
  have h: "next_data sampleEnv ''<html></html>'' = None"
    by code_simp
  have n: "extractFilmographyFromHtml sampleEnv ''<html></html>'' \<noteq>
      ([ConsoleError ''Failed to parse __NEXT_DATA__ JSON:''], Inr [])"
    by code_simp
  from C6_malformed_document [of sampleEnv "''<html></html>''"] h n show ?thesis
    by simp
qed

subsection \<open>C7: the defaults of an edge that has only a title text\<close>

text \<open>
  Claim C7. An edge whose node holds only \<^verbatim>\<open>title.titleText.text = "Show X"\<close> normalizes
  to the record with title \<^verbatim>\<open>"Show X"\<close>, empty \<^verbatim>\<open>titleUrl\<close>, empty start year, absent end
  year, episode count 0, and empty type, role and production stage.
\<close>

theorem C7_show_x_defaults:
  "normalizeEdge edgeShowX =
     Inr \<lparr> title = JStr ''Show X'', titleUrl = '''', fromYear = '''', toYear = None,
           noOfEpisodes = JNum 0, type = JStr '''', role = JStr '''',
           currentProductionStage = JStr '''' \<rparr>"
  by code_simp

subsection \<open>C8: the year fields\<close>

text \<open>
  Claim C8. For every edge, the start year is the episode-range year if present, else
  the release year, else the empty string, and is always a string; the end year is the
  episode-range \<^verbatim>\<open>endYear\<close> stringified if present, and otherwise an absence value distinct
  from the empty string.

  As stated this fails: an \<^verbatim>\<open>endYear\<close> that is present and is the empty string gives
  \<^verbatim>\<open>null\<close>, since \<^verbatim>\<open>||\<close> treats the empty string as missing.
\<close>

theorem C8_counterexample:
  "normalizeEdge edgeEmptyEndYear =
     Inr \<lparr> title = JStr '''', titleUrl = '''', fromYear = ''2019'', toYear = None,
           noOfEpisodes = JNum 0, type = JStr '''', role = JStr '''',
           currentProductionStage = JStr '''' \<rparr>
   \<and> spec_endYear edgeEmptyEndYear = Some ''''"
  by code_simp

text \<open>
  Claim C8, amended. For every edge that the normalizer turns into a record, the start
  year is the string of the episode-range year when that string is not empty, else the
  string of the release year, which is empty when there is none; the end year is the
  string of the episode-range \<^verbatim>\<open>endYear\<close> when that string is not empty, else \<^verbatim>\<open>null\<close>.
  The start year is a string and the end year is never the empty string.
\<close>

theorem C8_year_fields:
  assumes "normalizeEdge edge = Inr r"
  shows "fromYear r = (if stringified (episodeRangeYear edge) \<noteq> ''''
                       then stringified (episodeRangeYear edge)
                       else stringified (directReleaseYear edge))
       \<and> toYear r = (if stringified (episodeRangeEndYear edge) \<noteq> ''''
                     then Some (stringified (episodeRangeEndYear edge)) else None)
       \<and> toYear r \<noteq> Some ''''"
proof -
  have f: "fromYear r = (if stringified (episodeRangeYear edge) \<noteq> ''''
                       then stringified (episodeRangeYear edge)
                       else stringified (directReleaseYear edge))"
    by (rule fromYearOf_rule [OF normalizeEdge_years(1) [OF assms]])
  have t: "toYear r = (if stringified (episodeRangeEndYear edge) \<noteq> ''''
                     then Some (stringified (episodeRangeEndYear edge)) else None)"
    by (rule toYearOf_rule [OF normalizeEdge_years(2) [OF assms]])
  have "toYear r \<noteq> Some ''''"
    by (subst t) simp
  then show ?thesis
    using f t by (intro conjI)
qed

theorem C8_year_fields_witness:
  "normalizeEdge edgeSeries =
     Inr \<lparr> title = JStr '''', titleUrl = '''', fromYear = ''2015'', toYear = Some ''2019'',
           noOfEpisodes = JNum 12, type = JStr '''', role = JStr '''',
           currentProductionStage = JStr '''' \<rparr>
   \<and> stringified (episodeRangeYear edgeSeries) = ''2015''
   \<and> stringified (episodeRangeEndYear edgeSeries) = ''2019''"
proof -
  let ?r = "\<lparr> title = JStr '''', titleUrl = '''', fromYear = ''2015'', toYear = Some ''2019'',
           noOfEpisodes = JNum 12, type = JStr '''', role = JStr '''',
           currentProductionStage = JStr '''' \<rparr>"
  have h: "normalizeEdge edgeSeries = Inr ?r"
    by code_simp
  have ne: "stringified (episodeRangeYear edgeSeries) \<noteq> ''''"
    and ne': "stringified (episodeRangeEndYear edgeSeries) \<noteq> ''''"
    by code_simp+
  from C8_year_fields [OF h] ne ne' h show ?thesis
    by simp
qed

subsection \<open>C9: a second run adds nothing\<close>

text \<open>
  Claim C9. Running the driver a second time in the same world, on the tables the
  first run left, adds no output row and leaves the source table as it was: a row that
  gained an output row is no longer pending, and a row still pending adds nothing
  again.
\<close>

theorem C9_second_run_adds_nothing:
  "tblImdbMetaData (fst (main w (fst (main w st)))) = tblImdbMetaData (fst (main w st))
   \<and> tblTalentIMDBResume (fst (main w (fst (main w st)))) = tblTalentIMDBResume (fst (main w st))
   \<and> added w (fst (main w st)) = []"
  by (simp add: main_tbl [of w "fst (main w st)"] main_src added_again)

subsection \<open>C10: the older normalizer reads only the first released group\<close>

text \<open>
  Claim C10. Two documents that each hold a decodable structured-data block and whose
  payloads agree on
  \<^verbatim>\<open>props.pageProps.mainColumnData.releasedPrimaryCredits[0].credits.edges\<close> get the same
  result from \<^verbatim>\<open>extractFilmographyFromHtml\<close> of \<^verbatim>\<open>src/unnamed/part_000\<close>.
\<close>

theorem C10_first_released_group_only:
  assumes "next_data w html1 = Some s1" and "s1 \<noteq> []" and "json_parse w s1 = Some j1"
    and "next_data w html2 = Some s2" and "s2 \<noteq> []" and "json_parse w s2 = Some j2"
    and "firstReleasedEdges j1 = firstReleasedEdges j2"
  shows "extractFilmographyFromHtml_part000 w html1 = extractFilmographyFromHtml_part000 w html2"
  using assms by (simp add: extractFilmographyFromHtml_part000_def)

text \<open>
  Pages \<open>''A''\<close> and \<open>''B''\<close> share the first released group and differ in the later
  released group and in the unreleased container: the older function cannot tell them
  apart, the one of \<^verbatim>\<open>src/index.js\<close> can.
\<close>

theorem C10_first_released_group_only_witness:
  "next_data sampleEnv ''A'' = Some ''A'' \<and> ''A'' \<noteq> []
   \<and> json_parse sampleEnv ''A'' = Some (payload [creditGroup [edgeMovieA]] [creditGroup [edgeShowX]])
   \<and> next_data sampleEnv ''B'' = Some ''B'' \<and> ''B'' \<noteq> []
   \<and> json_parse sampleEnv ''B'' =
         Some (payload [creditGroup [edgeMovieA], creditGroup [edgeShowX]] [creditGroup [edgeShowX]])
   \<and> extractFilmographyFromHtml_part000 sampleEnv ''A'' = extractFilmographyFromHtml_part000 sampleEnv ''B''
   \<and> extractFilmographyFromHtml sampleEnv ''A'' \<noteq> extractFilmographyFromHtml sampleEnv ''B''"
proof -
  let ?pa = "payload [creditGroup [edgeMovieA]] [creditGroup [edgeShowX]]"
  let ?pb = "payload [creditGroup [edgeMovieA], creditGroup [edgeShowX]] [creditGroup [edgeShowX]]"
  have a: "next_data sampleEnv ''A'' = Some ''A''" and a': "''A'' \<noteq> []"
    and pa: "json_parse sampleEnv ''A'' = Some ?pa"
    and b: "next_data sampleEnv ''B'' = Some ''B''" and b': "''B'' \<noteq> []"
    and pb: "json_parse sampleEnv ''B'' = Some ?pb"
    by code_simp+
  have same: "firstReleasedEdges ?pa = firstReleasedEdges ?pb"
    by code_simp
  have new: "extractFilmographyFromHtml sampleEnv ''A'' \<noteq> extractFilmographyFromHtml sampleEnv ''B''"
    by code_simp
  show ?thesis
    using C10_first_released_group_only [OF a a' pa b b' pb same] a a' pa b b' pb new by simp
qed

end
